theory Spec2Isabelle
  imports Main "HOL-Library.Word"
begin

section \<open>The submit handler of static/js/script.js\<close>

text \<open>
  The script binds one asynchronous click handler to the send button. The handler reads
  the two input fields, trims them, and either alerts (a field is empty) or writes an
  in-progress text, issues a \<^verbatim>\<open>fetch\<close>, awaits the response and its JSON body, and
  writes one of three result texts. The embedding below follows the handler statement
  by statement. What the handler does to the page is explicit state passing; what it
  asks of the browser and the network (\<^verbatim>\<open>fetch\<close>, \<^verbatim>\<open>res.json()\<close>) is a parameter.

  The three element references of the script (\<^verbatim>\<open>phoneInput\<close>, \<^verbatim>\<open>messageInput\<close>,
  \<^verbatim>\<open>responseDiv\<close>) are taken to exist and the first two to be text controls, as the
  handler itself assumes.
\<close>

subsection \<open>Strings\<close>

text \<open>
  A JavaScript string is a sequence of UTF-16 code units. The Arabic literals of the
  script lie in the Basic Multilingual Plane, one code unit per character; they are
  written here as their code units.
\<close>

type_synonym jsstring = "16 word list"

definition ascii :: "string \<Rightarrow> jsstring" where
  "ascii s = map (\<lambda>c. of_nat (of_char c)) s"

text \<open>
  \<^verbatim>\<open>String.prototype.trim\<close> removes, at both ends, the code points of the ECMAScript
  productions WhiteSpace (TAB, VT, FF, ZWNBSP and the Unicode category Zs) and
  LineTerminator (LF, CR, LS, PS). All of them are single code units.
\<close>

definition WhiteSpace :: "16 word list" where
  "WhiteSpace =
     [0x0009, 0x000B, 0x000C, 0xFEFF,
      0x0020, 0x00A0, 0x1680,
      0x2000, 0x2001, 0x2002, 0x2003, 0x2004, 0x2005,
      0x2006, 0x2007, 0x2008, 0x2009, 0x200A,
      0x202F, 0x205F, 0x3000]"

definition LineTerminator :: "16 word list" where
  "LineTerminator = [0x000A, 0x000D, 0x2028, 0x2029]"

definition is_white :: "16 word \<Rightarrow> bool" where
  "is_white c = (c \<in> set (WhiteSpace @ LineTerminator))"

definition trim :: "jsstring \<Rightarrow> jsstring" where
  "trim s = rev (dropWhile is_white (rev (dropWhile is_white s)))"

subsection \<open>The string literals of the script\<close>

text \<open>The argument of \<^verbatim>\<open>alert\<close> (line 10), 28 code units.\<close>

definition alert_message :: jsstring where
  "alert_message =
     [0x64A, 0x631, 0x62C, 0x649, 0x20, 0x625, 0x62F, 0x62E, 0x627, 0x644, 0x20,
      0x631, 0x642, 0x645, 0x20, 0x648, 0x627, 0x62A, 0x633, 0x627, 0x628, 0x20,
      0x648, 0x627, 0x644, 0x646, 0x635, 0x21]"

text \<open>The in-progress text (line 14), 15 code units, ending in three full stops.\<close>

definition sending_text :: jsstring where
  "sending_text =
     [0x62C, 0x627, 0x631, 0x64D, 0x20, 0x627, 0x644, 0x625, 0x631, 0x633, 0x627,
      0x644, 0x2E, 0x2E, 0x2E]"

text \<open>The success text (line 25), 17 code units.\<close>

definition success_text :: jsstring where
  "success_text =
     [0x62A, 0x645, 0x20, 0x627, 0x644, 0x625, 0x631, 0x633, 0x627, 0x644, 0x20,
      0x628, 0x646, 0x62C, 0x627, 0x62D, 0x21]"

text \<open>The failure text (line 27), 22 code units.\<close>

definition failure_text :: jsstring where
  "failure_text =
     [0x62D, 0x62F, 0x62B, 0x20, 0x62E, 0x637, 0x623, 0x20, 0x623, 0x62B, 0x646,
      0x627, 0x621, 0x20, 0x627, 0x644, 0x625, 0x631, 0x633, 0x627, 0x644, 0x2E]"

text \<open>The prefix of the catch block (line 30): three letters, a colon, a space.\<close>

definition error_prefix :: jsstring where
  "error_prefix = [0x62E, 0x637, 0x623, 0x3A, 0x20]"

subsection \<open>Values, errors and promises\<close>

text \<open>
  A number is kept as an IEEE value: not-a-number, an infinity with its sign, or a sign,
  a significand and a binary exponent. Only its truthiness is ever asked for.
\<close>

datatype jsnumber = NaN | Infinity bool | Finite bool nat int

text \<open>
  The values \<^verbatim>\<open>res.json()\<close> can resolve to. An object is the list of its members in
  the order of the text; where a key is repeated the last member is the property, as
  JSON.parse has it.
\<close>

datatype jsvalue =
    JNull
  | JBoolean bool
  | JNumber jsnumber
  | JString jsstring
  | JArray "jsvalue list"
  | JObject "(jsstring \<times> jsvalue) list"

text \<open>
  What the handler catches: the reasons \<^verbatim>\<open>fetch\<close> and \<^verbatim>\<open>res.json()\<close> reject with
  and the TypeError of a property read are Error objects, with a string \<^verbatim>\<open>message\<close>.
\<close>

datatype jserror = JSError (name: jsstring) (message: jsstring)

text \<open>
  The fate of a promise as \<^verbatim>\<open>await\<close> sees it. \<open>Pending\<close> is the promise that never
  settles: the handler stays suspended at that \<^verbatim>\<open>await\<close>.
\<close>

datatype 'a promise = Pending | Rejected jserror | Fulfilled 'a

record response =
  json :: "jsvalue promise"

text \<open>
  The request of a \<^verbatim>\<open>fetch\<close> call: its URL, and the \<^verbatim>\<open>method\<close>, \<^verbatim>\<open>headers\<close> and
  \<^verbatim>\<open>body\<close> of its options.
\<close>

record request =
  url :: jsstring
  http_method :: jsstring
  headers :: "(jsstring \<times> jsstring) list"
  body :: jsstring

text \<open>
  The browser: what \<^verbatim>\<open>fetch\<close> answers to a request, and the message this engine gives
  the TypeError it throws when a property of \<^verbatim>\<open>null\<close> is read (the wording differs
  between engines).
\<close>

record browser =
  fetch :: "request \<Rightarrow> response promise"
  null_read_message :: jsstring

subsection \<open>Reading \<^verbatim>\<open>data.ok\<close> and testing it\<close>

text \<open>
  \<^verbatim>\<open>data.ok\<close>: reading a property of \<^verbatim>\<open>null\<close> throws a TypeError. An object gives its
  member or \<^verbatim>\<open>undefined\<close> (here \<open>None\<close>); a boolean, a number, a string or an array
  has no property of that name and gives \<^verbatim>\<open>undefined\<close>.
\<close>

definition ok_key :: jsstring where
  "ok_key = ascii ''ok''"

fun get_ok :: "browser \<Rightarrow> jsvalue \<Rightarrow> jserror + jsvalue option" where
  "get_ok b JNull = Inl (JSError (ascii ''TypeError'') (null_read_message b))"
| "get_ok b (JObject members) = Inr (map_of (rev members) ok_key)"
| "get_ok b v = Inr None"

text \<open>
  ToBoolean, the test of \<^verbatim>\<open>if (data.ok)\<close>: \<^verbatim>\<open>undefined\<close>, \<^verbatim>\<open>null\<close>, \<^verbatim>\<open>false\<close>,
  both zeros, NaN and the empty string are falsy; everything else is truthy.
\<close>

fun ToBoolean :: "jsvalue option \<Rightarrow> bool" where
  "ToBoolean None = False"
| "ToBoolean (Some JNull) = False"
| "ToBoolean (Some (JBoolean t)) = t"
| "ToBoolean (Some (JNumber NaN)) = False"
| "ToBoolean (Some (JNumber (Infinity s))) = True"
| "ToBoolean (Some (JNumber (Finite s m e))) = (m \<noteq> 0)"
| "ToBoolean (Some (JString s)) = (s \<noteq> [])"
| "ToBoolean (Some (JArray vs)) = True"
| "ToBoolean (Some (JObject members)) = True"

subsection \<open>\<^verbatim>\<open>JSON.stringify\<close> of an object of strings\<close>

text \<open>
  The handler serialises the literal \<^verbatim>\<open>{ from: phone, text }\<close>, an object whose two
  properties are strings. QuoteJSONString escapes the quotation mark, the backslash and
  the control characters, writes an unpaired surrogate as a \<^verbatim>\<open>\u\<close> escape, and copies
  every other code unit (a surrogate pair included).
\<close>

definition hex_digit :: "nat \<Rightarrow> 16 word" where
  "hex_digit n = (if n < 10 then 0x30 + of_nat n else 0x61 + of_nat (n - 10))"

definition UnicodeEscape :: "16 word \<Rightarrow> jsstring" where
  "UnicodeEscape c =
     [0x5C, 0x75,
      hex_digit (unat c div 4096 mod 16), hex_digit (unat c div 256 mod 16),
      hex_digit (unat c div 16 mod 16), hex_digit (unat c mod 16)]"

definition is_leading_surrogate :: "16 word \<Rightarrow> bool" where
  "is_leading_surrogate c = (0xD800 \<le> c \<and> c \<le> 0xDBFF)"

definition is_trailing_surrogate :: "16 word \<Rightarrow> bool" where
  "is_trailing_surrogate c = (0xDC00 \<le> c \<and> c \<le> 0xDFFF)"

definition quote_unit :: "16 word \<Rightarrow> jsstring" where
  "quote_unit c =
     (if c = 0x08 then [0x5C, 0x62]
      else if c = 0x09 then [0x5C, 0x74]
      else if c = 0x0A then [0x5C, 0x6E]
      else if c = 0x0C then [0x5C, 0x66]
      else if c = 0x0D then [0x5C, 0x72]
      else if c = 0x22 then [0x5C, 0x22]
      else if c = 0x5C then [0x5C, 0x5C]
      else if c < 0x20 \<or> is_leading_surrogate c \<or> is_trailing_surrogate c
        then UnicodeEscape c
      else [c])"

fun quote_units :: "jsstring \<Rightarrow> jsstring" where
  "quote_units [] = []"
| "quote_units [c] = quote_unit c"
| "quote_units (c # d # cs) =
     (if is_leading_surrogate c \<and> is_trailing_surrogate d
      then c # d # quote_units cs
      else quote_unit c @ quote_units (d # cs))"

definition QuoteJSONString :: "jsstring \<Rightarrow> jsstring" where
  "QuoteJSONString s = [0x22] @ quote_units s @ [0x22]"

fun join_members :: "jsstring list \<Rightarrow> jsstring" where
  "join_members [] = []"
| "join_members [m] = m"
| "join_members (m # ms) = m @ [0x2C] @ join_members ms"

definition JSON_stringify :: "(jsstring \<times> jsstring) list \<Rightarrow> jsstring" where
  "JSON_stringify props =
     [0x7B]
     @ join_members (map (\<lambda>(k, v). QuoteJSONString k @ [0x3A] @ QuoteJSONString v) props)
     @ [0x7D]"

subsection \<open>Reading such a JSON text\<close>

text \<open>
  What the server finds in the body is settled by the JSON grammar, not by the script.
  The reader below is that grammar for strings (RFC 8259, section 7) and for an object
  of two string members written without white space. It serves only to say which object
  a body denotes.
\<close>

text \<open>The value of a hexadecimal digit, in either case.\<close>

definition hex_value :: "16 word \<Rightarrow> nat option" where
  "hex_value w =
     (if 0x30 \<le> w \<and> w \<le> 0x39 then Some (unat w - 48)
      else if 0x61 \<le> w \<and> w \<le> 0x66 then Some (unat w - 87)
      else if 0x41 \<le> w \<and> w \<le> 0x46 then Some (unat w - 55)
      else None)"

text \<open>The character a two-character escape stands for.\<close>

definition unescape :: "16 word \<Rightarrow> 16 word option" where
  "unescape e =
     (if e = 0x22 then Some 0x22
      else if e = 0x5C then Some 0x5C
      else if e = 0x2F then Some 0x2F
      else if e = 0x62 then Some 0x08
      else if e = 0x66 then Some 0x0C
      else if e = 0x6E then Some 0x0A
      else if e = 0x72 then Some 0x0D
      else if e = 0x74 then Some 0x09
      else None)"

text \<open>Put one more code unit in front of what has been read.\<close>

definition push ::
  "16 word \<Rightarrow> (jsstring \<times> jsstring) option \<Rightarrow> (jsstring \<times> jsstring) option" where
  "push u x = (case x of None \<Rightarrow> None | Some (s, r) \<Rightarrow> Some (u # s, r))"

text \<open>
  The characters of a string up to its closing quotation mark: what was read and what
  follows. An unescaped control character, an unknown escape and a missing closing
  quotation mark are errors.
\<close>

fun read_chars :: "jsstring \<Rightarrow> (jsstring \<times> jsstring) option" where
  "read_chars [] = None"
| "read_chars (c # cs) =
     (if c = 0x22 then Some ([], cs)
      else if c = 0x5C then
        (case cs of
           [] \<Rightarrow> None
         | e # es \<Rightarrow>
             if e = 0x75 then
               (case es of
                  h1 # h2 # h3 # h4 # r \<Rightarrow>
                    (case (hex_value h1, hex_value h2, hex_value h3, hex_value h4) of
                       (Some n1, Some n2, Some n3, Some n4) \<Rightarrow>
                         push (of_nat (n1 * 4096 + n2 * 256 + n3 * 16 + n4)) (read_chars r)
                     | _ \<Rightarrow> None)
                | _ \<Rightarrow> None)
             else
               (case unescape e of
                  None \<Rightarrow> None
                | Some u \<Rightarrow> push u (read_chars es)))
      else if c < 0x20 then None
      else push c (read_chars cs))"

definition read_string :: "jsstring \<Rightarrow> (jsstring \<times> jsstring) option" where
  "read_string s =
     (case s of [] \<Rightarrow> None | q # cs \<Rightarrow> if q = 0x22 then read_chars cs else None)"

text \<open>A member \<^verbatim>\<open>"key":"value"\<close>, and an object of exactly two such members.\<close>

definition read_member :: "jsstring \<Rightarrow> ((jsstring \<times> jsstring) \<times> jsstring) option" where
  "read_member s =
     (case read_string s of
        None \<Rightarrow> None
      | Some (k, r) \<Rightarrow>
          (case r of
             [] \<Rightarrow> None
           | c # r' \<Rightarrow>
               if c = 0x3A then
                 (case read_string r' of None \<Rightarrow> None | Some (v, r'') \<Rightarrow> Some ((k, v), r''))
               else None))"

definition read_two_members :: "jsstring \<Rightarrow> ((jsstring \<times> jsstring) list) option" where
  "read_two_members s =
     (case s of
        [] \<Rightarrow> None
      | c # r \<Rightarrow>
          if c = 0x7B then
            (case read_member r of
               Some (m1, c1 # r1) \<Rightarrow>
                 if c1 = 0x2C then
                   (case read_member r1 of
                      Some (m2, [c2]) \<Rightarrow> if c2 = 0x7D then Some [m1, m2] else None
                    | _ \<Rightarrow> None)
                 else None
             | _ \<Rightarrow> None)
          else None)"

subsection \<open>The page and the effects of the handler\<close>

text \<open>
  What the handler can do to the world, in the order it does it: show the blocking
  alert, assign \<^verbatim>\<open>responseDiv.textContent\<close>, call \<^verbatim>\<open>fetch\<close>.
\<close>

datatype effect = Alert jsstring | SetTextContent jsstring | Fetch request

text \<open>
  The page: the values of the two inputs, the text of the status element, and the log
  of the effects so far. The record is extensible: its \<open>more\<close> part stands for every
  other piece of state of the page.
\<close>

record page =
  phoneInput_value :: jsstring
  messageInput_value :: jsstring
  responseDiv_textContent :: jsstring
  effects :: "effect list"

definition alert :: "jsstring \<Rightarrow> 'a page_scheme \<Rightarrow> 'a page_scheme" where
  "alert m p = p\<lparr>effects := effects p @ [Alert m]\<rparr>"

definition set_textContent :: "jsstring \<Rightarrow> 'a page_scheme \<Rightarrow> 'a page_scheme" where
  "set_textContent s p =
     p\<lparr>responseDiv_textContent := s, effects := effects p @ [SetTextContent s]\<rparr>"

definition call_fetch :: "request \<Rightarrow> 'a page_scheme \<Rightarrow> 'a page_scheme" where
  "call_fetch r p = p\<lparr>effects := effects p @ [Fetch r]\<rparr>"

subsection \<open>The handler\<close>

text \<open>The two arguments of the \<^verbatim>\<open>fetch\<close> call (lines 17 to 21).\<close>

definition inbound_request :: "jsstring \<Rightarrow> jsstring \<Rightarrow> request" where
  "inbound_request phone text =
     \<lparr>url = ascii ''/inbound'',
      http_method = ascii ''POST'',
      headers = [(ascii ''Content-Type'', ascii ''application/json'')],
      body = JSON_stringify [(ascii ''from'', phone), (ascii ''text'', text)]\<rparr>"

text \<open>
  How a block of the handler ends: it runs to its end, it throws, or it is suspended at
  an \<^verbatim>\<open>await\<close> whose promise never settles. Each carries the page as it then is.
\<close>

datatype 'a outcome = Normal 'a | Throw jserror 'a | Suspend 'a

text \<open>The body of the \<^verbatim>\<open>try\<close> block (lines 17 to 28).\<close>

definition try_block ::
  "browser \<Rightarrow> jsstring \<Rightarrow> jsstring \<Rightarrow> 'a page_scheme \<Rightarrow> 'a page_scheme outcome" where
  "try_block b phone text p =
     (let r = inbound_request phone text;
          p1 = call_fetch r p
      in case fetch b r of
           Pending \<Rightarrow> Suspend p1
         | Rejected err \<Rightarrow> Throw err p1
         | Fulfilled res \<Rightarrow>
             (case json res of
                Pending \<Rightarrow> Suspend p1
              | Rejected err \<Rightarrow> Throw err p1
              | Fulfilled data \<Rightarrow>
                  (case get_ok b data of
                     Inl err \<Rightarrow> Throw err p1
                   | Inr v \<Rightarrow>
                       if ToBoolean v then Normal (set_textContent success_text p1)
                       else Normal (set_textContent failure_text p1))))"

text \<open>
  How an activation ends: the handler returns (the value it returns, \<open>None\<close> for
  \<^verbatim>\<open>undefined\<close>), or it never resumes.
\<close>

datatype completion = Returned "jsvalue option" | Suspended

text \<open>The click handler (lines 6 to 32).\<close>

definition click_handler ::
  "browser \<Rightarrow> 'a page_scheme \<Rightarrow> completion \<times> 'a page_scheme" where
  "click_handler b p =
     (let phone = trim (phoneInput_value p);
          text = trim (messageInput_value p)
      in if phone = [] \<or> text = [] then (Returned None, alert alert_message p)
         else
           let p1 = set_textContent sending_text p
           in case try_block b phone text p1 of
                Normal p2 \<Rightarrow> (Returned None, p2)
              | Throw err p2 \<Rightarrow>
                  (Returned None, set_textContent (error_prefix @ message err) p2)
              | Suspend p2 \<Rightarrow> (Suspended, p2))"

subsection \<open>Vocabulary for the properties\<close>

text \<open>The requests, alerts and text assignments in a log of effects, in order.\<close>

fun requests_of :: "effect list \<Rightarrow> request list" where
  "requests_of [] = []"
| "requests_of (Fetch r # es) = r # requests_of es"
| "requests_of (e # es) = requests_of es"

fun alerts_of :: "effect list \<Rightarrow> jsstring list" where
  "alerts_of [] = []"
| "alerts_of (Alert m # es) = m # alerts_of es"
| "alerts_of (e # es) = alerts_of es"

fun texts_of :: "effect list \<Rightarrow> jsstring list" where
  "texts_of [] = []"
| "texts_of (SetTextContent s # es) = s # texts_of es"
| "texts_of (e # es) = texts_of es"

text \<open>The effects of one activation: what the handler appends to the log it finds.\<close>

definition activation :: "browser \<Rightarrow> 'a page_scheme \<Rightarrow> effect list" where
  "activation b p = drop (length (effects p)) (effects (snd (click_handler b p)))"

text \<open>Both fields pass the guard of line 9.\<close>

definition valid_inputs :: "'a page_scheme \<Rightarrow> bool" where
  "valid_inputs p =
     (trim (phoneInput_value p) \<noteq> [] \<and> trim (messageInput_value p) \<noteq> [])"

text \<open>The request the handler makes from a page, and the page once it is made.\<close>

definition the_request :: "'a page_scheme \<Rightarrow> request" where
  "the_request p =
     inbound_request (trim (phoneInput_value p)) (trim (messageInput_value p))"

definition requested :: "'a page_scheme \<Rightarrow> 'a page_scheme" where
  "requested p = call_fetch (the_request p) (set_textContent sending_text p)"

text \<open>
  The request has settled: neither \<^verbatim>\<open>await\<close> of the handler stays pending. The
  promise of \<^verbatim>\<open>fetch\<close> is rejected, or it is fulfilled and the promise of
  \<^verbatim>\<open>res.json()\<close> is rejected or fulfilled.
\<close>

definition settles :: "browser \<Rightarrow> 'a page_scheme \<Rightarrow> bool" where
  "settles b p =
     (case fetch b (the_request p) of
        Pending \<Rightarrow> False
      | Rejected err \<Rightarrow> True
      | Fulfilled res \<Rightarrow>
          (case json res of Pending \<Rightarrow> False | Rejected err \<Rightarrow> True | Fulfilled data \<Rightarrow> True))"

text \<open>An effect that is a text assignment or a request, and nothing else.\<close>

fun is_text_or_fetch :: "effect \<Rightarrow> bool" where
  "is_text_or_fetch (Alert m) = False"
| "is_text_or_fetch (SetTextContent s) = True"
| "is_text_or_fetch (Fetch r) = True"

subsection \<open>Concrete pages and browsers\<close>

text \<open>A browser whose \<^verbatim>\<open>fetch\<close> gives the same answer to every request.\<close>

definition answering :: "response promise \<Rightarrow> browser" where
  "answering r = \<lparr>fetch = (\<lambda>_. r), null_read_message = ascii ''data is null''\<rparr>"

definition replying :: "jsvalue \<Rightarrow> browser" where
  "replying v = answering (Fulfilled \<lparr>json = Fulfilled v\<rparr>)"

definition filled_page :: page where
  "filled_page =
     \<lparr>phoneInput_value = ascii '' +9677 '', messageInput_value = ascii ''hi'',
      responseDiv_textContent = ascii ''old'', effects = []\<rparr>"

definition blank_page :: page where
  "blank_page =
     \<lparr>phoneInput_value = ascii ''   '', messageInput_value = ascii ''hi'',
      responseDiv_textContent = ascii ''old'', effects = []\<rparr>"

section \<open>Properties\<close>

subsection \<open>Auxiliary facts\<close>

lemmas eval_trim = trim_def is_white_def WhiteSpace_def LineTerminator_def ascii_def

lemmas eval_json = JSON_stringify_def QuoteJSONString_def quote_unit_def
  is_leading_surrogate_def is_trailing_surrogate_def inbound_request_def

lemma dropWhile_all: "(\<forall>x\<in>set (dropWhile P s). P x) = (\<forall>x\<in>set s. P x)"
  by (induction s) auto

lemma trim_Nil_iff: "trim s = [] \<longleftrightarrow> list_all is_white s"
  by (simp add: trim_def list_all_iff dropWhile_all)

lemma click_handler_invalid:
  "\<not> valid_inputs p \<Longrightarrow> click_handler b p = (Returned None, alert alert_message p)"
  by (auto simp add: click_handler_def valid_inputs_def Let_def)

text \<open>On valid inputs the handler is a case distinction on what the network does.\<close>

lemma click_handler_valid:
  "valid_inputs p \<Longrightarrow>
   click_handler b p =
     (case fetch b (the_request p) of
        Pending \<Rightarrow> (Suspended, requested p)
      | Rejected err \<Rightarrow>
          (Returned None, set_textContent (error_prefix @ message err) (requested p))
      | Fulfilled res \<Rightarrow>
          (case json res of
             Pending \<Rightarrow> (Suspended, requested p)
           | Rejected err \<Rightarrow>
               (Returned None, set_textContent (error_prefix @ message err) (requested p))
           | Fulfilled data \<Rightarrow>
               (case get_ok b data of
                  Inl err \<Rightarrow>
                    (Returned None,
                     set_textContent (error_prefix @ message err) (requested p))
                | Inr v \<Rightarrow>
                    (Returned None,
                     set_textContent (if ToBoolean v then success_text else failure_text)
                       (requested p)))))"
  by (simp add: click_handler_def valid_inputs_def try_block_def the_request_def
      requested_def Let_def split: promise.splits sum.splits)

lemma effects_set_textContent [simp]:
  "effects (set_textContent s p) = effects p @ [SetTextContent s]"
  by (simp add: set_textContent_def)

lemma text_set_textContent [simp]:
  "responseDiv_textContent (set_textContent s p) = s"
  by (simp add: set_textContent_def)

lemma effects_requested [simp]:
  "effects (requested p) = effects p @ [SetTextContent sending_text, Fetch (the_request p)]"
  by (simp add: requested_def call_fetch_def)

lemma text_requested [simp]: "responseDiv_textContent (requested p) = sending_text"
  by (simp add: requested_def call_fetch_def)

lemma activation_valid:
  "valid_inputs p \<Longrightarrow>
   \<exists>rest. activation b p = SetTextContent sending_text # Fetch (the_request p) # rest
     \<and> requests_of rest = [] \<and> alerts_of rest = [] \<and> length rest \<le> 1"
  by (simp add: activation_def click_handler_valid split: promise.splits sum.splits)

lemma effects_prefix: "effects (snd (click_handler b p)) = effects p @ activation b p"
  by (cases "valid_inputs p")
     (simp_all add: activation_def click_handler_valid click_handler_invalid alert_def
        split: promise.splits sum.splits)

lemma texts_differ:
  "failure_text \<noteq> success_text" "failure_text \<noteq> error_prefix @ X"
  "sending_text \<noteq> success_text" "sending_text \<noteq> failure_text"
  "sending_text \<noteq> error_prefix @ X" "success_text \<noteq> error_prefix @ X"
  by (simp_all add: failure_text_def success_text_def error_prefix_def sending_text_def)

lemma valid_filled_page: "valid_inputs filled_page"
  by (simp add: valid_inputs_def filled_page_def eval_trim)

lemma the_request_filled_page:
  "the_request filled_page =
     \<lparr>url = ascii ''/inbound'', http_method = ascii ''POST'',
      headers = [(ascii ''Content-Type'', ascii ''application/json'')],
      body = ascii ''{\"from\":\"+9677\",\"text\":\"hi\"}''\<rparr>"
  by (simp add: the_request_def filled_page_def eval_trim eval_json)

lemma invalid_blank_page: "\<not> valid_inputs blank_page"
  by (simp add: valid_inputs_def blank_page_def eval_trim)

lemma activation_invalid:
  "\<not> valid_inputs p \<Longrightarrow> activation b p = [Alert alert_message]"
  by (simp add: activation_def click_handler_invalid alert_def)

text \<open>Reading back what QuoteJSONString and \<^verbatim>\<open>JSON.stringify\<close> write.\<close>

lemma unat_hex_digit:
  "n < 16 \<Longrightarrow> unat (hex_digit n) = (if n < 10 then 48 + n else 87 + n)"
  by (simp add: hex_digit_def unat_word_ariths unat_of_nat)

lemma hex_value_digit: "n < 16 \<Longrightarrow> hex_value (hex_digit n) = Some n"
  by (simp add: hex_value_def word_le_nat_alt unat_hex_digit)

lemma positional:
  "x1 = a * 16 + b \<Longrightarrow> x2 = x1 * 16 + c \<Longrightarrow> n = x2 * 16 + d \<Longrightarrow>
   a * 4096 + b * 256 + c * 16 + d = (n::nat)"
  by simp

lemma digits_recombine:
  assumes "n < 65536"
  shows "(n div 4096 mod 16) * 4096 + (n div 256 mod 16) * 256 + (n div 16 mod 16) * 16
           + n mod 16 = (n::nat)"
proof -
  have e1: "n div 256 div 16 = n div 4096" and e2: "n div 16 div 16 = n div 256"
    by (simp_all add: div_mult2_eq [symmetric])
  have "n div 4096 < 16"
    using assms by (simp add: div_less_iff_less_mult)
  then have a: "n div 4096 mod 16 = n div 4096"
    by simp
  have b: "n div 256 = n div 4096 * 16 + n div 256 mod 16"
    using div_mult_mod_eq [of "n div 256" 16] by (simp only: e1)
  have c: "n div 16 = n div 256 * 16 + n div 16 mod 16"
    using div_mult_mod_eq [of "n div 16" 16] by (simp only: e2)
  have d: "n = n div 16 * 16 + n mod 16"
    using div_mult_mod_eq [of n 16] by simp
  show ?thesis
    unfolding a by (rule positional [OF b c d])
qed

lemma read_escape:
  assumes "hex_value h1 = Some a" "hex_value h2 = Some b"
    "hex_value h3 = Some c" "hex_value h4 = Some d"
  shows "read_chars (0x5C # 0x75 # h1 # h2 # h3 # h4 # t) =
           push (of_nat (a * 4096 + b * 256 + c * 16 + d)) (read_chars t)"
  using assms by simp

lemma read_UnicodeEscape:
  "read_chars (UnicodeEscape c @ t) = push c (read_chars t)"
proof -
  have n: "unat c < 65536"
    using unsigned_less [of c] by simp
  have "read_chars (UnicodeEscape c @ t) =
          push (of_nat ((unat c div 4096 mod 16) * 4096 + (unat c div 256 mod 16) * 256
                 + (unat c div 16 mod 16) * 16 + unat c mod 16)) (read_chars t)"
    unfolding UnicodeEscape_def append_Cons append_Nil
    by (rule read_escape) (simp_all add: hex_value_digit)
  then show ?thesis
    unfolding digits_recombine [OF n] by simp
qed

lemma read_quote_unit: "read_chars (quote_unit c @ t) = push c (read_chars t)"
  by (auto simp add: quote_unit_def read_UnicodeEscape unescape_def)

lemma surrogate_ge:
  assumes "is_leading_surrogate c \<or> is_trailing_surrogate c"
  shows "0xD800 \<le> c"
proof -
  have "(0xD800 :: 16 word) \<le> 0xDC00"
    by simp
  with assms show ?thesis
    unfolding is_leading_surrogate_def is_trailing_surrogate_def
    by (blast intro: order_trans)
qed

lemma surrogate_plain:
  assumes "is_leading_surrogate c \<or> is_trailing_surrogate c"
  shows "\<not> c < 0x20" "c \<noteq> 0x22" "c \<noteq> 0x5C"
proof -
  have g: "0xD800 \<le> c"
    using assms by (rule surrogate_ge)
  show "\<not> c < 0x20"
  proof
    assume "c < 0x20"
    with g have "(0xD800 :: 16 word) < 0x20"
      by (rule order_le_less_trans)
    then show False by simp
  qed
  show "c \<noteq> 0x22"
  proof
    assume "c = 0x22"
    with g have "(0xD800 :: 16 word) \<le> 0x22" by simp
    then show False by simp
  qed
  show "c \<noteq> 0x5C"
  proof
    assume "c = 0x5C"
    with g have "(0xD800 :: 16 word) \<le> 0x5C" by simp
    then show False by simp
  qed
qed

lemma read_pair:
  assumes "is_leading_surrogate c" "is_trailing_surrogate d"
  shows "read_chars (c # d # t) = push c (push d (read_chars t))"
  using surrogate_plain [of c] surrogate_plain [of d] assms by simp

lemma read_quote_units: "read_chars (quote_units s @ 0x22 # t) = Some (s, t)"
proof (induction s rule: quote_units.induct)
  case 1
  show ?case by simp
next
  case (2 c)
  have "read_chars (quote_unit c @ 0x22 # t) = push c (read_chars (0x22 # t))"
    by (rule read_quote_unit)
  also have "read_chars (0x22 # t) = Some ([], t)"
    by simp
  finally show ?case
    by (simp only: quote_units.simps push_def option.case prod.case)
next
  case (3 c d cs)
  show ?case
  proof (cases "is_leading_surrogate c \<and> is_trailing_surrogate d")
    case True
    then have q: "quote_units (c # d # cs) = c # d # quote_units cs"
      by simp
    have ih: "read_chars (quote_units cs @ 0x22 # t) = Some (cs, t)"
      using True 3 by blast
    have "read_chars (c # d # (quote_units cs @ 0x22 # t)) =
            push c (push d (read_chars (quote_units cs @ 0x22 # t)))"
      using True by (intro read_pair) simp_all
    then show ?thesis
      by (simp only: q ih push_def option.case prod.case append_Cons)
  next
    case False
    then have q: "quote_units (c # d # cs) = quote_unit c @ quote_units (d # cs)"
      by auto
    have ih: "read_chars (quote_units (d # cs) @ 0x22 # t) = Some (d # cs, t)"
      using False 3 by blast
    have "read_chars (quote_unit c @ (quote_units (d # cs) @ 0x22 # t)) =
            push c (read_chars (quote_units (d # cs) @ 0x22 # t))"
      by (rule read_quote_unit)
    then show ?thesis
      by (simp only: q ih push_def option.case prod.case append_assoc)
  qed
qed

lemma read_QuoteJSONString: "read_string (QuoteJSONString s @ t) = Some (s, t)"
  by (simp add: read_string_def QuoteJSONString_def read_quote_units del: read_chars.simps)

lemma read_member_quoted:
  "read_member (QuoteJSONString k @ [0x3A] @ QuoteJSONString v @ t) = Some ((k, v), t)"
  by (simp add: read_member_def read_QuoteJSONString)

lemma read_back:
  "read_two_members (JSON_stringify [(k1, v1), (k2, v2)]) = Some [(k1, v1), (k2, v2)]"
  using
    read_member_quoted
      [of k1 v1 "0x2C # QuoteJSONString k2 @ [0x3A] @ QuoteJSONString v2 @ [0x7D]"]
    read_member_quoted [of k2 v2 "[0x7D]"]
  by (simp add: read_two_members_def JSON_stringify_def)

subsection \<open>The request\<close>

text \<open>
  C1. Whenever both trimmed values are non-empty, the activation issues exactly one
  request: a POST to \<^verbatim>\<open>/inbound\<close> with the single header
  \<^verbatim>\<open>Content-Type: application/json\<close>, whose body is the JSON text of the object with
  \<^verbatim>\<open>from\<close> bound to the trimmed phone value and \<^verbatim>\<open>text\<close> bound to the trimmed
  message value: the body is what \<^verbatim>\<open>JSON.stringify\<close> writes for that object, and
  read as JSON it gives back these two members and nothing else. This holds whatever
  the network then does, also when it never answers.
\<close>

theorem C1_single_post:
  assumes "valid_inputs p"
  shows "effects (snd (click_handler b p)) = effects p @ activation b p \<and>
         requests_of (activation b p) =
           [\<lparr>url = ascii ''/inbound'', http_method = ascii ''POST'',
             headers = [(ascii ''Content-Type'', ascii ''application/json'')],
             body = JSON_stringify [(ascii ''from'', trim (phoneInput_value p)),
                                    (ascii ''text'', trim (messageInput_value p))]\<rparr>] \<and>
         map (\<lambda>r. read_two_members (body r)) (requests_of (activation b p)) =
           [Some [(ascii ''from'', trim (phoneInput_value p)),
                  (ascii ''text'', trim (messageInput_value p))]]"
proof -
  from assms obtain rest where
    "activation b p = SetTextContent sending_text # Fetch (the_request p) # rest"
    "requests_of rest = []"
    using activation_valid by blast
  then show ?thesis
    by (simp add: effects_prefix the_request_def inbound_request_def read_back)
qed

theorem C1_single_post_witness:
  "valid_inputs filled_page \<and>
   requests_of (activation (replying (JObject [(ascii ''ok'', JBoolean True)])) filled_page) =
     [\<lparr>url = ascii ''/inbound'', http_method = ascii ''POST'',
       headers = [(ascii ''Content-Type'', ascii ''application/json'')],
       body = ascii ''{\"from\":\"+9677\",\"text\":\"hi\"}''\<rparr>]"
  using C1_single_post [OF valid_filled_page,
      of "replying (JObject [(ascii ''ok'', JBoolean True)])"]
    valid_filled_page
  by (simp add: filled_page_def eval_trim eval_json)



subsection \<open>Validation\<close>

text \<open>
  C2. Whenever the trimmed phone value or the trimmed message value is empty, the handler
  shows the alert with its fixed message and returns: the alert is the only effect, no
  request is issued, and the text of the status element is not assigned.
\<close>

theorem C2_empty_input_alerts:
  assumes "trim (phoneInput_value p) = [] \<or> trim (messageInput_value p) = []"
  shows "click_handler b p = (Returned None, p\<lparr>effects := effects p @ [Alert alert_message]\<rparr>) \<and>
         alerts_of (activation b p) = [alert_message] \<and>
         requests_of (activation b p) = [] \<and>
         texts_of (activation b p) = [] \<and>
         responseDiv_textContent (snd (click_handler b p)) = responseDiv_textContent p"
proof -
  from assms have "\<not> valid_inputs p"
    by (auto simp add: valid_inputs_def)
  then show ?thesis
    by (simp add: click_handler_invalid activation_invalid alert_def)
qed

theorem C2_empty_input_alerts_witness:
  "(trim (phoneInput_value blank_page) = [] \<or> trim (messageInput_value blank_page) = []) \<and>
   click_handler (answering Pending) blank_page =
     (Returned None, blank_page\<lparr>effects := [Alert alert_message]\<rparr>) \<and>
   responseDiv_textContent (snd (click_handler (answering Pending) blank_page)) = ascii ''old''"
proof -
  have h: "trim (phoneInput_value blank_page) = [] \<or> trim (messageInput_value blank_page) = []"
    by (simp add: blank_page_def eval_trim)
  show ?thesis
    using h C2_empty_input_alerts [OF h, of "answering Pending"]
    by (simp add: blank_page_def)
qed

text \<open>
  C7. An input that consists only of white space (the code units \<^verbatim>\<open>trim\<close> removes)
  trims to the empty string, and the handler does with it what it does with the empty
  string, in either field: the outcome and the page are the same but for the field
  itself, the alert is shown and no request is sent.
\<close>

theorem C7_whitespace_only_is_empty:
  assumes "list_all is_white s"
  shows "trim s = [] \<and>
         click_handler b (p\<lparr>phoneInput_value := s\<rparr>) =
           (fst (click_handler b (p\<lparr>phoneInput_value := []\<rparr>)),
            (snd (click_handler b (p\<lparr>phoneInput_value := []\<rparr>)))\<lparr>phoneInput_value := s\<rparr>) \<and>
         click_handler b (p\<lparr>messageInput_value := s\<rparr>) =
           (fst (click_handler b (p\<lparr>messageInput_value := []\<rparr>)),
            (snd (click_handler b (p\<lparr>messageInput_value := []\<rparr>)))\<lparr>messageInput_value := s\<rparr>) \<and>
         activation b (p\<lparr>phoneInput_value := s\<rparr>) = [Alert alert_message] \<and>
         activation b (p\<lparr>messageInput_value := s\<rparr>) = [Alert alert_message]"
proof -
  from assms have t: "trim s = []"
    by (simp add: trim_Nil_iff)
  have e: "trim [] = []"
    by (simp add: trim_def)
  have "\<not> valid_inputs (p\<lparr>phoneInput_value := s\<rparr>)" "\<not> valid_inputs (p\<lparr>phoneInput_value := []\<rparr>)"
    "\<not> valid_inputs (p\<lparr>messageInput_value := s\<rparr>)" "\<not> valid_inputs (p\<lparr>messageInput_value := []\<rparr>)"
    by (simp_all add: valid_inputs_def t e)
  then show ?thesis
    by (simp add: t click_handler_invalid activation_invalid alert_def)
qed

theorem C7_whitespace_only_is_empty_witness:
  "list_all is_white (ascii ''   '') \<and>
   trim (ascii ''   '') = [] \<and>
   click_handler (answering Pending) (filled_page\<lparr>phoneInput_value := ascii ''   ''\<rparr>) =
     (Returned None,
      filled_page\<lparr>phoneInput_value := ascii ''   '', effects := [Alert alert_message]\<rparr>)"
proof -
  have h: "list_all is_white (ascii ''   '')"
    by (simp add: eval_trim)
  have n: "\<not> valid_inputs (filled_page\<lparr>phoneInput_value := []\<rparr>)"
    by (simp add: valid_inputs_def trim_def)
  show ?thesis
    using h C7_whitespace_only_is_empty [OF h, of "answering Pending" filled_page]
    by (simp add: click_handler_invalid [OF n] alert_def) (simp add: filled_page_def)
qed

subsection \<open>The three result texts\<close>







text \<open>
  C10. With non-empty trimmed inputs, when the response body parses to \<^verbatim>\<open>null\<close> (or
  to any value on which reading \<^verbatim>\<open>ok\<close> throws), the read throws inside the
  \<^verbatim>\<open>try\<close> block and the handler assigns the error prefix followed by the message of
  that error, not the failure text.
\<close>

theorem C10_null_body_is_error:
  assumes "valid_inputs p"
    and "fetch b (the_request p) = Fulfilled res"
    and "json res = Fulfilled data"
    and "data = JNull \<or> (\<exists>e. get_ok b data = Inl e)"
  shows "\<exists>e. get_ok b data = Inl e \<and>
           responseDiv_textContent (snd (click_handler b p)) = error_prefix @ message e \<and>
           responseDiv_textContent (snd (click_handler b p)) \<noteq> failure_text"
  using assms
  by (auto simp add: click_handler_valid texts_differ [symmetric])

theorem C10_null_body_is_error_witness:
  "valid_inputs filled_page \<and>
   responseDiv_textContent (snd (click_handler (replying JNull) filled_page)) =
     error_prefix @ ascii ''data is null''"
  using valid_filled_page
    C10_null_body_is_error [OF valid_filled_page,
      of "replying JNull" "\<lparr>json = Fulfilled JNull\<rparr>" JNull]
  by (simp add: replying_def answering_def)

text \<open>
  C9. With non-empty trimmed inputs, once the request has settled (neither \<^verbatim>\<open>await\<close>
  stays pending), the handler returns and the status text is the success text, the
  failure text, or the error prefix followed by some message; it is not left at the
  in-progress text. The handler's invocation completes in exactly these cases: while the
  promise of \<^verbatim>\<open>fetch\<close> or, after a response has arrived, the promise of its body
  stays pending, the handler stays suspended and the status text is the in-progress
  text.
\<close>

theorem C9_final_text:
  assumes "valid_inputs p"
  shows "(settles b p \<longrightarrow>
            fst (click_handler b p) = Returned None \<and>
            (responseDiv_textContent (snd (click_handler b p)) = success_text \<or>
             responseDiv_textContent (snd (click_handler b p)) = failure_text \<or>
             (\<exists>X. responseDiv_textContent (snd (click_handler b p)) = error_prefix @ X)) \<and>
            responseDiv_textContent (snd (click_handler b p)) \<noteq> sending_text) \<and>
         (\<not> settles b p \<longrightarrow>
            fst (click_handler b p) = Suspended \<and>
            responseDiv_textContent (snd (click_handler b p)) = sending_text)"
  using assms
  by (auto simp add: click_handler_valid settles_def texts_differ [symmetric]
      split: promise.splits sum.splits)

theorem C9_final_text_witness:
  "valid_inputs filled_page \<and>
   settles (replying (JObject [])) filled_page \<and>
   fst (click_handler (replying (JObject [])) filled_page) = Returned None \<and>
   responseDiv_textContent (snd (click_handler (replying (JObject [])) filled_page)) =
     failure_text \<and>
   \<not> settles (answering (Fulfilled \<lparr>json = Pending\<rparr>)) filled_page \<and>
   fst (click_handler (answering (Fulfilled \<lparr>json = Pending\<rparr>)) filled_page) = Suspended"
proof -
  have s: "settles (replying (JObject [])) filled_page"
    by (simp add: settles_def replying_def answering_def)
  have n: "\<not> settles (answering (Fulfilled \<lparr>json = Pending\<rparr>)) filled_page"
    by (simp add: settles_def answering_def)
  show ?thesis
    using valid_filled_page s n
      C9_final_text [OF valid_filled_page, of "replying (JObject [])"]
      C9_final_text [OF valid_filled_page, of "answering (Fulfilled \<lparr>json = Pending\<rparr>)"]
    by (simp add: click_handler_valid replying_def answering_def)
qed

subsection \<open>The frame\<close>

text \<open>
  C8, as stated: the only effects of an activation are text assignments and at most
  one request. This fails where a field is blank: the activation then shows the alert,
  an effect that is neither.
\<close>

theorem C8_only_text_and_fetch_counterexample:
  "\<not> list_all is_text_or_fetch (activation (answering Pending) blank_page)"
  by (simp add: activation_invalid [OF invalid_blank_page])

text \<open>
  C8, amended. An activation leaves the values of the two inputs and every other part
  of the page as they were. Its effects are either the one alert with the fixed message
  and nothing else, which is the case exactly when a trimmed field is empty, or text
  assignments to the status element and at most one request; the status text afterwards
  is the last text assigned, or the old one when none was. The handler returns
  \<^verbatim>\<open>undefined\<close> or stays suspended.
\<close>

theorem C8_frame:
  "phoneInput_value (snd (click_handler b p)) = phoneInput_value p \<and>
   messageInput_value (snd (click_handler b p)) = messageInput_value p \<and>
   page.more (snd (click_handler b p)) = page.more p \<and>
   effects (snd (click_handler b p)) = effects p @ activation b p \<and>
   responseDiv_textContent (snd (click_handler b p)) =
     last (responseDiv_textContent p # texts_of (activation b p)) \<and>
   length (requests_of (activation b p)) \<le> 1 \<and>
   (activation b p = [Alert alert_message] \<or> alerts_of (activation b p) = []) \<and>
   (if trim (phoneInput_value p) = [] \<or> trim (messageInput_value p) = []
    then activation b p = [Alert alert_message]
    else alerts_of (activation b p) = []) \<and>
   (fst (click_handler b p) = Returned None \<or> fst (click_handler b p) = Suspended)"
proof (cases "valid_inputs p")
  case False
  then show ?thesis
    by (simp add: effects_prefix activation_invalid click_handler_invalid alert_def)
       (auto simp add: valid_inputs_def)
next
  case True
  then have "\<not> (trim (phoneInput_value p) = [] \<or> trim (messageInput_value p) = [])"
    by (simp add: valid_inputs_def)
  with True show ?thesis
    by (simp add: effects_prefix)
       (simp add: activation_def click_handler_valid requested_def call_fetch_def
          set_textContent_def split: promise.splits sum.splits)
qed

theorem C8_frame_witness:
  "phoneInput_value (snd (click_handler (answering Pending) filled_page)) = ascii '' +9677 '' \<and>
   messageInput_value (snd (click_handler (answering Pending) filled_page)) = ascii ''hi'' \<and>
   length (requests_of (activation (answering Pending) filled_page)) \<le> 1 \<and>
   activation (answering Pending) blank_page = [Alert alert_message]"
  using C8_frame [of "answering Pending" filled_page] C8_frame [of "answering Pending" blank_page]
    invalid_blank_page
  by (simp add: filled_page_def blank_page_def valid_inputs_def)

end
